theory Spec2Isabelle
  imports Main
begin

section \<open>QOption: an optional-value container with move-out semantics\<close>

text \<open>
  The class template \<^verbatim>\<open>QOption<Type>\<close> of \<^verbatim>\<open>src/qoption.h\<close> has two data members:
  the discriminant \<^verbatim>\<open>bool available\<close> and the raw storage \<^verbatim>\<open>value\<close>, which is read and
  written through \<^verbatim>\<open>*__ptr_v()\<close> as a \<^verbatim>\<open>Type\<close>.  The storage always has some content (what
  the memory held before construction, or the object left behind by a move); the model
  therefore keeps a value of type \<open>'a\<close> in it at all times and takes the content of
  not yet constructed memory as an argument of each constructor.  Assignment of a
  \<^verbatim>\<open>Type\<close> stores the value assigned, and \<^verbatim>\<open>std::move\<close> out of the storage leaves the
  content in place (what it does for trivially copyable types).

  The declaration \<^verbatim>\<open>typedef typename std::aligned_storage<sizeof (Type), alignof(Type)>
  value_storage\<close> names the class \<^verbatim>\<open>std::aligned_storage<..>\<close> itself and not its member
  \<^verbatim>\<open>type\<close>: the member \<^verbatim>\<open>value\<close> is an object of an empty class, one byte large.  So
  \<^verbatim>\<open>value = o.value\<close> copies no byte of a \<^verbatim>\<open>Type\<close>, and a \<^verbatim>\<open>Type\<close> accessed through
  \<^verbatim>\<open>*__ptr_v()\<close> reaches beyond the container into the object that lies behind it.  The
  record below gives each container storage of its own for one \<^verbatim>\<open>Type\<close>: it tells what
  a member function does to the discriminant and to the content of the storage as long as
  no other object is written through the overlap.  The overlap itself is modelled on
  byte-addressed memory, for \<^verbatim>\<open>Type = int\<close>, in the subsection on the container in memory.
\<close>

record 'a QOption =
  available :: bool
  "value" :: 'a

subsection \<open>Exceptions\<close>

text \<open>
  \<^verbatim>\<open>unwrap<E>\<close> and \<^verbatim>\<open>expect<E>\<close> throw an exception of the caller's type \<^verbatim>\<open>E\<close>
  (default \<^verbatim>\<open>std::logic_error\<close>) built from a C string.
\<close>

datatype exception_kind = logic_error | custom string

datatype error = Exception exception_kind string

subsection \<open>Queries\<close>

definition isNone :: "'a QOption \<Rightarrow> bool" where
  "isNone c = (\<not> available c)"

definition isSome :: "'a QOption \<Rightarrow> bool" where
  "isSome c = available c"

subsection \<open>Constructors from a value, and the static factories\<close>

text \<open>
  Each constructor receives \<open>raw\<close>, the memory it constructs in.  The default member
  initialiser \<^verbatim>\<open>available {false}\<close> runs first, then the constructor's body.
\<close>

definition QOption_default :: "'a QOption \<Rightarrow> 'a QOption" where
  "QOption_default raw = raw\<lparr>available := False\<rparr>"

definition QOption_const_ref :: "'a QOption \<Rightarrow> 'a \<Rightarrow> 'a QOption" where
  "QOption_const_ref raw t =
     (let c0 = raw\<lparr>available := False\<rparr>;
          c1 = c0\<lparr>value := t\<rparr>
      in c1\<lparr>available := True\<rparr>)"

text \<open>
  \<^verbatim>\<open>QOption(Type && t)\<close> swaps the storage with the argument: the second component of the
  result is what the caller's object holds afterwards.  Here the argument is an object
  that the storage does not overlap; \<open>QOption_rvalue_at\<close> below is the same constructor on
  bytes, where it may.
\<close>

definition QOption_rvalue :: "'a QOption \<Rightarrow> 'a \<Rightarrow> 'a QOption \<times> 'a" where
  "QOption_rvalue raw t =
     (let c0 = raw\<lparr>available := False\<rparr>;
          (c1, t') = (c0\<lparr>value := t\<rparr>, value c0)
      in (c1\<lparr>available := True\<rparr>, t'))"

definition None_q :: "'a QOption \<Rightarrow> 'a QOption" where
  "None_q raw = QOption_default raw"

definition Some_q :: "'a QOption \<Rightarrow> 'a \<Rightarrow> 'a QOption" where
  "Some_q raw val = QOption_const_ref raw val"

definition Some_rv :: "'a QOption \<Rightarrow> 'a \<Rightarrow> 'a QOption \<times> 'a" where
  "Some_rv raw val = QOption_rvalue raw val"

subsection \<open>Consuming operations\<close>

text \<open>
  A member function that mutates the container returns the container's new state next to
  its result.  A \<^verbatim>\<open>throw\<close> is the \<open>Inl\<close> branch.
\<close>

definition unwrap :: "exception_kind \<Rightarrow> 'a QOption \<Rightarrow> error + ('a \<times> 'a QOption)" where
  "unwrap E c =
     (if isNone c then Inl (Exception E ''Option is None value'')
      else let c1 = c\<lparr>available := False\<rparr> in Inr (value c1, c1))"

definition expect :: "exception_kind \<Rightarrow> string \<Rightarrow> 'a QOption \<Rightarrow> error + ('a \<times> 'a QOption)" where
  "expect E text c =
     (if isNone c then Inl (Exception E text)
      else let c1 = c\<lparr>available := False\<rparr> in Inr (value c1, c1))"

definition unwrap_def :: "'a \<Rightarrow> 'a QOption \<Rightarrow> 'a \<times> 'a QOption" where
  "unwrap_def def_value c =
     (let c1 = (if isNone c then c\<lparr>value := def_value\<rparr> else c);
          c2 = c1\<lparr>available := False\<rparr>
      in (value c2, c2))"

text \<open>
  The overload \<^verbatim>\<open>unwrap_def(Type && def_value)\<close> moves the argument into the storage
  instead of copying it; on the container it does the same.
\<close>

definition unwrap_def_rv :: "'a \<Rightarrow> 'a QOption \<Rightarrow> 'a \<times> 'a QOption" where
  "unwrap_def_rv def_value c =
     (let c1 = (if isNone c then c\<lparr>value := def_value\<rparr> else c);
          c2 = c1\<lparr>available := False\<rparr>
      in (value c2, c2))"

subsection \<open>Operations that take callables\<close>

text \<open>
  A callable of the caller may have effects of its own.  It is modelled as a function on
  the caller's state \<open>'w\<close>, which the operation threads through; the container itself is
  not part of \<open>'w\<close>.  \<^verbatim>\<open>if_some\<close> hands its callable the lvalue \<^verbatim>\<open>*__ptr_v()\<close>, a
  non-const reference into the storage, so that callable also returns the content it
  leaves there; what the callables of \<^verbatim>\<open>if_some\<close> and \<^verbatim>\<open>if_none\<close> return is dropped.
\<close>

definition if_some :: "('a \<Rightarrow> 'w \<Rightarrow> 'a \<times> 'w) \<Rightarrow> 'a QOption \<Rightarrow> 'w \<Rightarrow> 'a QOption \<times> 'w" where
  "if_some fn c w =
     (if isSome c then (let (v, w') = fn (value c) w in (c\<lparr>value := v\<rparr>, w'))
      else (c, w))"

definition if_none :: "('w \<Rightarrow> 'r \<times> 'w) \<Rightarrow> 'a QOption \<Rightarrow> 'w \<Rightarrow> 'a QOption \<times> 'w" where
  "if_none fn c w = (if isNone c then (let (r, w') = fn w in (c, w')) else (c, w))"

definition unwrap_or :: "('w \<Rightarrow> 'a \<times> 'w) \<Rightarrow> 'a QOption \<Rightarrow> 'w \<Rightarrow> 'a \<times> 'a QOption \<times> 'w" where
  "unwrap_or none_fn c w =
     (let (c1, w1) = (if isNone c then (let (v, w') = none_fn w in (c\<lparr>value := v\<rparr>, w'))
                      else (c, w));
          c2 = c1\<lparr>available := False\<rparr>
      in (value c2, c2, w1))"

definition match ::
  "('a \<Rightarrow> 'w \<Rightarrow> 'r \<times> 'w) \<Rightarrow> ('w \<Rightarrow> 'r \<times> 'w) \<Rightarrow> 'a QOption \<Rightarrow> 'w \<Rightarrow> 'r \<times> 'a QOption \<times> 'w" where
  "match some_fn none_fn c w =
     (if isNone c then (let (r, w') = none_fn w in (r, c, w'))
      else let c1 = c\<lparr>available := False\<rparr>;
               (r, w') = some_fn (value c1) w
           in (r, c1, w'))"

subsection \<open>Operations on two containers\<close>

text \<open>
  The transfer constructors and the assignment operators take a reference to a second
  container, which may be the container itself.  They are modelled on a store that maps
  the address of each container to its state; \<open>this\<close> is the address of the object the
  member function is called on, \<open>other\<close> the address its parameter \<^verbatim>\<open>o\<close> refers to.
  The assignment operators return \<^verbatim>\<open>*this\<close>, the address they were given.

  The functions that call \<^verbatim>\<open>o.unwrap()\<close> are declared \<^verbatim>\<open>noexcept\<close>: an exception
  escaping from them ends the program, which is the result \<open>None\<close>.
\<close>

type_synonym addr = nat

type_synonym 'a store = "addr \<Rightarrow> 'a QOption"

text \<open>
  \<^verbatim>\<open>operator==(const QOption & o)\<close> has no definition here.  Its body evaluates
  \<^verbatim>\<open>*o.__ptr_v()\<close>, a call of the non-const member function \<^verbatim>\<open>__ptr_v()\<close> on a const
  object, which is ill-formed: the member function of the class template cannot be
  instantiated, and a program that compares two containers does not compile.
\<close>

definition QOption_move :: "addr \<Rightarrow> addr \<Rightarrow> 'a store \<Rightarrow> 'a store option" where
  "QOption_move this other h =
     (let h0 = h(this := (h this)\<lparr>available := False\<rparr>) in
      if isSome (h0 other) then
        (case unwrap logic_error (h0 other) of
           Inl e \<Rightarrow> None
         | Inr (v, c) \<Rightarrow>
             let h1 = h0(other := c);
                 h2 = h1(this := (h1 this)\<lparr>value := v\<rparr>)
             in Some (h2(this := (h2 this)\<lparr>available := True\<rparr>)))
      else Some (h0(this := (h0 this)\<lparr>available := False\<rparr>)))"

definition QOption_copy :: "addr \<Rightarrow> addr \<Rightarrow> 'a store \<Rightarrow> 'a store option" where
  "QOption_copy this other h =
     (let h0 = h(this := (h this)\<lparr>available := False\<rparr>) in
      if isSome (h0 other) then
        (case unwrap logic_error (h0 other) of
           Inl e \<Rightarrow> None
         | Inr (v, c) \<Rightarrow>
             let h1 = h0(other := c);
                 h2 = h1(this := (h1 this)\<lparr>value := v\<rparr>)
             in Some (h2(this := (h2 this)\<lparr>available := True\<rparr>)))
      else Some (h0(this := (h0 this)\<lparr>available := False\<rparr>)))"

definition operator_assign_move :: "addr \<Rightarrow> addr \<Rightarrow> 'a store \<Rightarrow> 'a store option" where
  "operator_assign_move this other h =
     (if isSome (h other) then
        (case unwrap logic_error (h other) of
           Inl e \<Rightarrow> None
         | Inr (v, c) \<Rightarrow>
             let h1 = h(other := c);
                 h2 = h1(this := (h1 this)\<lparr>value := v\<rparr>)
             in Some (h2(this := (h2 this)\<lparr>available := True\<rparr>)))
      else Some (h(this := (h this)\<lparr>available := False\<rparr>)))"

text \<open>
  Copy assignment from \<^verbatim>\<open>QOption &\<close> does not call \<^verbatim>\<open>unwrap\<close>.  Its second statement
  \<^verbatim>\<open>value = o.value\<close> assigns the empty \<^verbatim>\<open>value_storage\<close> object and leaves the content
  of the storage, of either container, as it is (\<open>h2 = h1\<close>).
\<close>

definition operator_assign_copy :: "addr \<Rightarrow> addr \<Rightarrow> 'a store \<Rightarrow> 'a store" where
  "operator_assign_copy this other h =
     (if isSome (h other) then
        let h1 = h(other := (h other)\<lparr>available := False\<rparr>);
            h2 = h1
        in h2(this := (h2 this)\<lparr>available := True\<rparr>)
      else h(this := (h this)\<lparr>available := False\<rparr>))"

subsection \<open>Callers, and notions for the properties\<close>

text \<open>
  A chain \<^verbatim>\<open>c.if_some(f).if_none(g)...\<close>: each call returns \<^verbatim>\<open>*this\<close>, on which the next
  one is made.
\<close>

datatype ('a, 'r, 'w) combinator =
    If_some "'a \<Rightarrow> 'w \<Rightarrow> 'a \<times> 'w"
  | If_none "'w \<Rightarrow> 'r \<times> 'w"

fun chain :: "('a, 'r, 'w) combinator list \<Rightarrow> 'a QOption \<Rightarrow> 'w \<Rightarrow> 'a QOption \<times> 'w" where
  "chain [] c w = (c, w)"
| "chain (If_some fn # ks) c w = (let (c', w') = if_some fn c w in chain ks c' w')"
| "chain (If_none fn # ks) c w = (let (c', w') = if_none fn c w in chain ks c' w')"

text \<open>
  Callables that count how often they run: the caller's state is extended by the number
  of calls of the callable for the occupied case and of the one for the empty case.
\<close>

definition counted_some ::
  "('a \<Rightarrow> 'w \<Rightarrow> 'r \<times> 'w) \<Rightarrow> 'a \<Rightarrow> 'w \<times> nat \<times> nat \<Rightarrow> 'r \<times> ('w \<times> nat \<times> nat)" where
  "counted_some f v s = (case s of (w, n, m) \<Rightarrow> (fst (f v w), (snd (f v w), Suc n, m)))"

definition counted_none ::
  "('w \<Rightarrow> 'r \<times> 'w) \<Rightarrow> 'w \<times> nat \<times> nat \<Rightarrow> 'r \<times> ('w \<times> nat \<times> nat)" where
  "counted_none g s = (case s of (w, n, m) \<Rightarrow> (fst (g w), (snd (g w), n, Suc m)))"

text \<open>A callable \<^verbatim>\<open>[n](Type & x) { x = n; }\<close> for \<^verbatim>\<open>if_some\<close>.\<close>

definition overwrite :: "'a \<Rightarrow> 'a \<Rightarrow> 'w \<Rightarrow> 'a \<times> 'w" where
  "overwrite n x w = (n, w)"

text \<open>
  The callers of the scenario \<^verbatim>\<open>c.if_some(print).if_none(panic)\<close>: \<open>print\<close> appends the
  value it is handed to the output and leaves it as it is, \<open>panic\<close> reports a failure.
\<close>

definition print :: "string \<Rightarrow> string list \<Rightarrow> string \<times> string list" where
  "print x out = (x, out @ [x])"

definition panic :: "string list \<Rightarrow> unit \<times> string list" where
  "panic out = ((), out @ [''panic''])"

text \<open>
  What a container holds as far as its discriminant tells: the stored value when
  \<^verbatim>\<open>available\<close> is set, nothing otherwise.
\<close>

definition contents :: "'a QOption \<Rightarrow> 'a option" where
  "contents c = (if isSome c then Some (value c) else None)"

text \<open>Stores and containers for the concrete cases below.\<close>

definition raw0 :: "int QOption" where
  "raw0 = \<lparr>available = True, value = 99\<rparr>"

definition store0 :: "int store" where
  "store0 = (\<lambda>p. None_q raw0)(1 := Some_q raw0 5)"

definition store1 :: "int store" where
  "store1 = (\<lambda>p. None_q raw0)(1 := Some_q raw0 7, 3 := Some_q raw0 5)"

subsection \<open>The container in memory\<close>

text \<open>
  \<^verbatim>\<open>QOption<int>\<close> on bytes, as the usual ABIs lay it out: \<^verbatim>\<open>available\<close> is the byte at
  the address of the object (0 for false, 1 for true) and the empty \<^verbatim>\<open>value\<close> the byte
  behind it, so the object is two bytes large and \<^verbatim>\<open>__ptr_v()\<close> is its address plus one.
  An \<^verbatim>\<open>int\<close> is four bytes, least significant first; the values here are not negative.
  Memory maps an address to the byte it holds.
\<close>

type_synonym memory = "nat \<Rightarrow> nat"

definition load_int :: "memory \<Rightarrow> nat \<Rightarrow> nat" where
  "load_int m a = m a + 256 * m (a + 1) + 65536 * m (a + 2) + 16777216 * m (a + 3)"

definition store_int :: "memory \<Rightarrow> nat \<Rightarrow> nat \<Rightarrow> memory" where
  "store_int m a v =
     m(a := v mod 256,
       a + 1 := v div 256 mod 256,
       a + 2 := v div 65536 mod 256,
       a + 3 := v div 16777216 mod 256)"

definition ptr_v :: "nat \<Rightarrow> nat" where
  "ptr_v this = this + 1"

text \<open>
  \<^verbatim>\<open>QOption(Type && t)\<close> for the container at \<open>this\<close> and the caller's object at \<open>t\<close>:
  the member initialiser, then \<^verbatim>\<open>std::swap\<close> (\<^verbatim>\<open>tmp = a; a = b; b = tmp\<close>), then
  \<^verbatim>\<open>available = true\<close>.
\<close>

definition QOption_rvalue_at :: "nat \<Rightarrow> nat \<Rightarrow> memory \<Rightarrow> memory" where
  "QOption_rvalue_at this t m =
     (let m0 = m(this := 0);
          tmp = load_int m0 (ptr_v this);
          m1 = store_int m0 (ptr_v this) (load_int m0 t);
          m2 = store_int m1 t tmp
      in m2(this := 1))"

definition Some_rv_at :: "nat \<Rightarrow> nat \<Rightarrow> memory \<Rightarrow> memory" where
  "Some_rv_at this val m = QOption_rvalue_at this val m"

definition unwrap_at :: "exception_kind \<Rightarrow> nat \<Rightarrow> memory \<Rightarrow> error + (nat \<times> memory)" where
  "unwrap_at E this m =
     (if m this = 0 then Inl (Exception E ''Option is None value'')
      else let m1 = m(this := 0) in Inr (load_int m1 (ptr_v this), m1))"

text \<open>
  \<^verbatim>\<open>int x = 3;\<close> at address 2, directly behind the place of a container at address 0, in
  memory that holds zeros elsewhere.
\<close>

definition memory0 :: memory where
  "memory0 = store_int (\<lambda>a. 0) 2 3"

lemmas container_defs =
  isNone_def isSome_def unwrap_def expect_def QOption_default_def QOption_const_ref_def
  QOption_rvalue_def None_q_def Some_q_def Some_rv_def

section \<open>Properties\<close>

text \<open>
  The overload \<^verbatim>\<open>Some(const Type &)\<close> stores its argument, and \<^verbatim>\<open>unwrap\<close> reads it back:
  the container returns \<open>v\<close> and is empty afterwards.
\<close>

lemma unwrap_Some_const_ref:
  "\<exists>c'. unwrap E (Some_q raw v) = Inr (v, c') \<and> isNone c' \<and> \<not> isSome c'"
  by (simp add: container_defs)

text \<open>
  C1 does not hold of the overload \<^verbatim>\<open>Some(Type &&)\<close>.  In
  \<^verbatim>\<open>int x = 3; QOption<int>::Some(std::move(x)).unwrap()\<close>, with \<open>x\<close> directly behind the
  two bytes of the container, the four bytes that \<^verbatim>\<open>*__ptr_v()\<close> denotes share three
  bytes with \<open>x\<close>.  The swap in \<^verbatim>\<open>QOption(Type &&)\<close> reads 768 through \<^verbatim>\<open>*__ptr_v()\<close>
  (the 3 of \<open>x\<close>, one byte higher), stores 3 there, and then stores the 768 into \<open>x\<close>,
  which puts a second 3 into the storage: \<^verbatim>\<open>unwrap\<close> returns 196611 (hexadecimal 30003),
  not 3.
\<close>

theorem Some_rv_unwrap_overlapping:
  "load_int memory0 2 = 3 \<and>
   map_sum id fst (unwrap_at logic_error 0 (Some_rv_at 0 2 memory0)) = Inr 196611"
  by (simp add: memory0_def unwrap_at_def Some_rv_at_def QOption_rvalue_at_def load_int_def
      store_int_def ptr_v_def Let_def)

text \<open>
  The transfer constructors and move assignment store what \<^verbatim>\<open>o.unwrap()\<close> returns: between
  two containers, neither in reach of the other's \<^verbatim>\<open>*__ptr_v()\<close>, they hand the contents of
  the source to the destination and leave the source empty.
\<close>

lemma transfer_by_unwrap:
  assumes "this \<noteq> other"
  shows
   "(\<exists>h'. QOption_move this other h = Some h' \<and>
        contents (h' this) = contents (h other) \<and> contents (h' other) = None) \<and>
    (\<exists>h'. QOption_copy this other h = Some h' \<and>
        contents (h' this) = contents (h other) \<and> contents (h' other) = None) \<and>
    (\<exists>h'. operator_assign_move this other h = Some h' \<and>
        contents (h' this) = contents (h other) \<and> contents (h' other) = None)"
  using assms
  by (simp add: QOption_move_def QOption_copy_def operator_assign_move_def contents_def
      container_defs Let_def)

text \<open>
  C2 does not hold of copy assignment, \<^verbatim>\<open>operator=(QOption &)\<close>.  With an occupied source
  it clears the discriminant of the source and sets that of the destination, but
  \<^verbatim>\<open>value = o.value\<close> stores nothing: the destination is occupied with what its own
  storage held.  After \<^verbatim>\<open>b = a\<close> with \<^verbatim>\<open>a = Some(5)\<close> and an empty \<open>b\<close> whose storage
  holds 99, \<open>b\<close> holds 99 and \<open>a\<close> is empty; after \<^verbatim>\<open>d = s\<close> with \<^verbatim>\<open>d = Some(7)\<close> and
  \<^verbatim>\<open>s = Some(5)\<close>, \<open>d\<close> still holds 7.  The 5 is in neither container.
\<close>

theorem copy_assignment_keeps_stale_value:
  "contents (store0 1) = Some 5 \<and> contents (store0 2) = None \<and> value (store0 2) = 99 \<and>
   contents (operator_assign_copy 2 1 store0 2) = Some 99 \<and>
   contents (operator_assign_copy 2 1 store0 1) = None \<and>
   contents (store1 1) = Some 7 \<and> contents (store1 3) = Some 5 \<and>
   contents (operator_assign_copy 1 3 store1 1) = Some 7 \<and>
   contents (operator_assign_copy 1 3 store1 3) = None"
  by (simp add: store0_def store1_def raw0_def operator_assign_copy_def contents_def
      container_defs)

text \<open>
  C3.  \<^verbatim>\<open>match\<close> on callables that count their calls.  On an empty container the
  callable for the empty case has run once and the other never, the result is its result
  and the container is as it was.  On an occupied container the callable for the occupied
  case has run once, on the contained value, and the other never; the result is its
  result, and the container is the same with the discriminant cleared.  With any two
  callables the container is empty afterwards.
\<close>

theorem match_runs_one_branch:
  "match (counted_some f) (counted_none g) c (w, 0, 0) =
     (if isNone c then (fst (g w), c, (snd (g w), 0, 1))
      else (fst (f (value c) w), c\<lparr>available := False\<rparr>, (snd (f (value c) w), 1, 0))) \<and>
   isNone (fst (snd (match some_fn none_fn c w')))"
  by (simp add: match_def counted_some_def counted_none_def isNone_def split: prod.splits)

text \<open>
  C4.  \<^verbatim>\<open>unwrap_or\<close> on a callable that counts its calls: on an empty container the
  callable has run once and its result is returned (and is what the storage then holds);
  on an occupied one it has not run and the contained value is returned.
  \<^verbatim>\<open>unwrap_def\<close>, in both overloads, returns the given default on an empty container and
  the contained value on an occupied one.  After each of the three the container is empty.
\<close>

theorem unwrap_or_fallback:
  "unwrap_or (counted_none g) c (w, 0, 0) =
     (if isNone c
      then (fst (g w), c\<lparr>available := False, value := fst (g w)\<rparr>, (snd (g w), 0, 1))
      else (value c, c\<lparr>available := False\<rparr>, (w, 0, 0))) \<and>
   unwrap_def d c =
     (if isNone c then (d, c\<lparr>available := False, value := d\<rparr>)
      else (value c, c\<lparr>available := False\<rparr>)) \<and>
   unwrap_def_rv d c =
     (if isNone c then (d, c\<lparr>available := False, value := d\<rparr>)
      else (value c, c\<lparr>available := False\<rparr>)) \<and>
   isNone (fst (snd (unwrap_or none_fn c w'))) \<and>
   isNone (snd (unwrap_def d c)) \<and>
   isNone (snd (unwrap_def_rv d c))"
  by (simp add: unwrap_or_def unwrap_def_def unwrap_def_rv_def counted_none_def isNone_def
      Let_def split: prod.splits)

text \<open>
  C5.  \<^verbatim>\<open>unwrap\<close> and \<^verbatim>\<open>expect\<close> throw exactly when the container is empty.  The
  exception is of the type the call names (\<^verbatim>\<open>std::logic_error\<close> when it names none) and
  carries the text \<^verbatim>\<open>"Option is None value"\<close>, for \<^verbatim>\<open>expect\<close> the text given.  When one
  of them has returned a value the container is empty, so that a further call throws.
  No other member function has a \<^verbatim>\<open>throw\<close>; the \<^verbatim>\<open>noexcept\<close> constructors and move
  assignment, which call \<^verbatim>\<open>unwrap\<close>, never meet its exception and always complete.
\<close>

theorem unwrap_expect_throw_when_empty:
  "((\<exists>e. unwrap E c = Inl e) \<longleftrightarrow> isNone c) \<and>
   ((\<exists>e. expect E text c = Inl e) \<longleftrightarrow> isNone c) \<and>
   (isNone c \<longrightarrow>
      unwrap E c = Inl (Exception E ''Option is None value'') \<and>
      unwrap logic_error c = Inl (Exception logic_error ''Option is None value'') \<and>
      expect E text c = Inl (Exception E text)) \<and>
   (\<forall>v c'. unwrap E c = Inr (v, c') \<or> expect E text c = Inr (v, c') \<longrightarrow>
      isNone c' \<and> unwrap E' c' = Inl (Exception E' ''Option is None value'') \<and>
      expect E' text' c' = Inl (Exception E' text')) \<and>
   QOption_move this other h \<noteq> None \<and>
   QOption_copy this other h \<noteq> None \<and>
   operator_assign_move this other h \<noteq> None"
  by (auto simp add: container_defs QOption_move_def QOption_copy_def
      operator_assign_move_def Let_def)

text \<open>
  On \<^verbatim>\<open>None()\<close> both throw, with the caller's exception type and text; \<^verbatim>\<open>Some(5)\<close>
  unwraps to 5 once, and the container left behind throws.
\<close>

theorem unwrap_expect_throw_when_empty_witness:
  "isNone (None_q raw0) \<and>
   unwrap logic_error (None_q raw0) = Inl (Exception logic_error ''Option is None value'') \<and>
   expect (custom ''my_error'') ''nothing here'' (None_q raw0) =
     Inl (Exception (custom ''my_error'') ''nothing here'') \<and>
   unwrap logic_error (Some_q raw0 5) = Inr (5, \<lparr>available = False, value = 5\<rparr>) \<and>
   unwrap logic_error \<lparr>available = False, value = 5 :: int\<rparr> =
     Inl (Exception logic_error ''Option is None value'')"
proof -
  have e: "isNone (None_q raw0)"
    by (simp add: container_defs)
  have u: "unwrap logic_error (Some_q raw0 5) = Inr (5, \<lparr>available = False, value = 5\<rparr>)"
    by (simp add: container_defs raw0_def)
  note empty_case = unwrap_expect_throw_when_empty
      [of "custom ''my_error''" "None_q raw0" "''nothing here''" logic_error "''''" 1 2 store0]
  note some_case = unwrap_expect_throw_when_empty
      [of logic_error "Some_q raw0 5" "''''" logic_error "''''" 1 2 store0]
  from empty_case e have
    "unwrap logic_error (None_q raw0) = Inl (Exception logic_error ''Option is None value'')"
    "expect (custom ''my_error'') ''nothing here'' (None_q raw0) =
       Inl (Exception (custom ''my_error'') ''nothing here'')"
    by blast+
  moreover from some_case u have
    "unwrap logic_error \<lparr>available = False, value = 5 :: int\<rparr> =
       Inl (Exception logic_error ''Option is None value'')"
    by blast
  ultimately show ?thesis
    using e u by simp
qed

subsection \<open>Chains of \<^verbatim>\<open>if_some\<close> and \<^verbatim>\<open>if_none\<close>\<close>

lemma chain_available: "available (fst (chain ks c w)) = available c"
proof (induction ks arbitrary: c w)
  case Nil
  show ?case by simp
next
  case (Cons k ks)
  show ?case
  proof (cases k)
    case (If_some fn)
    then show ?thesis
      using Cons.IH by (simp add: if_some_def isSome_def split: prod.splits)
  next
    case (If_none fn)
    then show ?thesis
      using Cons.IH by (simp add: if_none_def isNone_def split: prod.splits)
  qed
qed

lemma chain_reads_only:
  "(\<forall>fn. If_some fn \<in> set ks \<longrightarrow> (\<forall>x u. fst (fn x u) = x)) \<Longrightarrow> fst (chain ks c w) = c"
proof (induction ks arbitrary: c w)
  case Nil
  show ?case by simp
next
  case (Cons k ks)
  have rest: "\<forall>fn. If_some fn \<in> set ks \<longrightarrow> (\<forall>x u. fst (fn x u) = x)"
    using Cons.prems by simp
  show ?case
  proof (cases k)
    case (If_some fn)
    have "fst (fn (value c) w) = value c"
      using Cons.prems If_some by simp
    then have "fst (if_some fn c w) = c"
      by (auto simp add: if_some_def split: prod.splits)
    then show ?thesis
      using If_some Cons.IH [OF rest] by (simp add: case_prod_beta)
  next
    case (If_none fn)
    have "fst (if_none fn c w) = c"
      by (simp add: if_none_def split: prod.splits)
    then show ?thesis
      using If_none Cons.IH [OF rest] by (simp add: case_prod_beta)
  qed
qed

text \<open>
  C7, as stated, fails: \<^verbatim>\<open>if_some\<close> passes \<^verbatim>\<open>*__ptr_v()\<close>, a non-const lvalue, so its
  callable can assign to the stored value.  After
  \<^verbatim>\<open>c.if_some([](int & x) { x = 4; })\<close> on \<^verbatim>\<open>c = Some(3)\<close>, \<^verbatim>\<open>c.unwrap()\<close> returns 4.
\<close>

theorem if_some_overwrites_counterexample:
  "unwrap logic_error (fst (if_some (overwrite 4) (Some_q raw0 3) ())) =
     Inr (4, \<lparr>available = False, value = 4\<rparr>)"
  by (simp add: if_some_def overwrite_def container_defs raw0_def)

text \<open>
  C7, amended.  \<^verbatim>\<open>if_some\<close> runs its callable, once and on the stored value, only when
  the container is occupied, and \<^verbatim>\<open>if_none\<close> runs its callable, once, only when the
  container is empty (the callables count their calls); the discriminant is as before and
  the storage holds what the callable of \<^verbatim>\<open>if_some\<close> left there.  After any chain of the
  two the container is occupied exactly when it was before, so \<^verbatim>\<open>unwrap\<close> on a chain that
  started from \<^verbatim>\<open>Some(v)\<close> returns a value.  When every callable given to \<^verbatim>\<open>if_some\<close> in
  the chain leaves the value it is handed as it is, the chain leaves the container as it
  is, and that value is \<open>v\<close>.
\<close>

theorem if_some_if_none_keep_state:
  "if_some (counted_some f) c (w, 0, 0) =
     (if isSome c then (c\<lparr>value := fst (f (value c) w)\<rparr>, (snd (f (value c) w), 1, 0))
      else (c, (w, 0, 0))) \<and>
   if_none (counted_none g) c (w, 0, 0) =
     (if isNone c then (c, (snd (g w), 0, 1)) else (c, (w, 0, 0))) \<and>
   isSome (fst (chain ks c w')) = isSome c \<and>
   (\<exists>x c'. unwrap E (fst (chain ks (Some_q raw v) w')) = Inr (x, c')) \<and>
   ((\<forall>fn. If_some fn \<in> set ks \<longrightarrow> (\<forall>x u. fst (fn x u) = x)) \<longrightarrow>
      fst (chain ks c w') = c \<and>
      (\<exists>c'. unwrap E (fst (chain ks (Some_q raw v) w')) = Inr (v, c')))"
proof (intro conjI impI)
  show "if_some (counted_some f) c (w, 0, 0) =
     (if isSome c then (c\<lparr>value := fst (f (value c) w)\<rparr>, (snd (f (value c) w), 1, 0))
      else (c, (w, 0, 0)))"
    by (simp add: if_some_def counted_some_def)
  show "if_none (counted_none g) c (w, 0, 0) =
     (if isNone c then (c, (snd (g w), 0, 1)) else (c, (w, 0, 0)))"
    by (simp add: if_none_def counted_none_def)
  show "isSome (fst (chain ks c w')) = isSome c"
    by (simp add: isSome_def chain_available)
  have "available (fst (chain ks (Some_q raw v) w'))"
    by (simp add: chain_available container_defs)
  then show "\<exists>x c'. unwrap E (fst (chain ks (Some_q raw v) w')) = Inr (x, c')"
    by (simp add: unwrap_def isNone_def)
next
  assume ro: "\<forall>fn. If_some fn \<in> set ks \<longrightarrow> (\<forall>x u. fst (fn x u) = x)"
  show "fst (chain ks c w') = c"
    by (rule chain_reads_only [OF ro])
  have "fst (chain ks (Some_q raw v) w') = Some_q raw v"
    by (rule chain_reads_only [OF ro])
  then show "\<exists>c'. unwrap E (fst (chain ks (Some_q raw v) w')) = Inr (v, c')"
    by (simp add: container_defs)
qed

text \<open>
  The scenario \<^verbatim>\<open>c = Some("hello"); c.if_some(print).if_none(panic); c.unwrap()\<close>:
  \<open>print\<close> has run, \<open>panic\<close> has not, and \<^verbatim>\<open>unwrap\<close> returns \<^verbatim>\<open>"hello"\<close>.
\<close>

theorem if_some_if_none_keep_state_witness:
  "chain [If_some print, If_none panic] (Some_q \<lparr>available = False, value = ''''\<rparr> ''hello'') [] =
     (\<lparr>available = True, value = ''hello''\<rparr>, [''hello'']) \<and>
   unwrap logic_error
     (fst (chain [If_some print, If_none panic] (Some_q \<lparr>available = False, value = ''''\<rparr> ''hello'') [])) =
     Inr (''hello'', \<lparr>available = False, value = ''hello''\<rparr>)"
proof -
  have ro: "\<forall>fn. If_some fn \<in> set [If_some print, If_none panic] \<longrightarrow>
      (\<forall>x u. fst (fn x u) = x)"
    by (simp add: print_def)
  have run: "chain [If_some print, If_none panic] (Some_q \<lparr>available = False, value = ''''\<rparr> ''hello'') [] =
     (\<lparr>available = True, value = ''hello''\<rparr>, [''hello''])"
    by (simp add: if_some_def if_none_def print_def container_defs)
  note t = if_some_if_none_keep_state
    [of print "Some_q \<lparr>available = False, value = ''''\<rparr> ''hello''" "[]" panic
        "[If_some print, If_none panic]" "[]" logic_error "\<lparr>available = False, value = ''''\<rparr>" "''hello''"]
  from t ro have "\<exists>c'. unwrap logic_error
     (fst (chain [If_some print, If_none panic] (Some_q \<lparr>available = False, value = ''''\<rparr> ''hello'') [])) =
       Inr (''hello'', c')"
    by blast
  then show ?thesis
    using run by (auto simp add: unwrap_def isNone_def split: if_splits)
qed

subsection \<open>What the operations read of the storage\<close>

lemma contents_eq_iff:
  "contents c = contents c' \<longleftrightarrow>
     available c = available c' \<and> (available c \<longrightarrow> value c = value c')"
  by (auto simp add: contents_def isSome_def)

lemma contents_update [simp]:
  "contents (c\<lparr>available := False\<rparr>) = None"
  "contents (c\<lparr>available := True\<rparr>) = Some (value c)"
  "contents (c\<lparr>value := v\<rparr>) = (if available c then Some v else None)"
  by (simp_all add: contents_def isSome_def)

text \<open>
  Two containers with the same contents differ at most in what the storage holds under a
  cleared discriminant.  No member function that works on one container tells them
  apart: results, exceptions, the effects of the callables and the contents afterwards
  are the same.  What \<^verbatim>\<open>unwrap_or\<close>
  and \<^verbatim>\<open>unwrap_def\<close> return for an empty container is what they have just stored.
\<close>

lemma members_ignore_unavailable_storage:
  assumes "contents c = contents c'"
  shows
   "isSome c = isSome c' \<and> isNone c = isNone c' \<and>
    map_sum id (map_prod id contents) (unwrap E c) =
      map_sum id (map_prod id contents) (unwrap E c') \<and>
    map_sum id (map_prod id contents) (expect E text c) =
      map_sum id (map_prod id contents) (expect E text c') \<and>
    map_prod id (map_prod contents id) (unwrap_or none_fn c w) =
      map_prod id (map_prod contents id) (unwrap_or none_fn c' w) \<and>
    map_prod id contents (unwrap_def d c) = map_prod id contents (unwrap_def d c') \<and>
    map_prod id contents (unwrap_def_rv d c) = map_prod id contents (unwrap_def_rv d c') \<and>
    map_prod id (map_prod contents id) (match some_fn none_fn' c w) =
      map_prod id (map_prod contents id) (match some_fn none_fn' c' w) \<and>
    map_prod contents id (if_some fn c w) = map_prod contents id (if_some fn c' w) \<and>
    map_prod contents id (if_none none_fn'' c w) = map_prod contents id (if_none none_fn'' c' w)"
  using assms
  by (auto simp add: contents_eq_iff container_defs unwrap_or_def unwrap_def_def
      unwrap_def_rv_def match_def if_some_def if_none_def Let_def split: prod.splits)

text \<open>
  The same for the transfer constructors and move assignment, on two stores whose
  containers have the same contents address by address.  It is not so for copy
  assignment, which makes what the storage of an empty destination held its contents.
\<close>

lemma store_members_ignore_unavailable_storage:
  assumes "\<forall>p. contents (h p) = contents (h' p)"
  shows
   "rel_option (\<lambda>s s'. \<forall>p. contents (s p) = contents (s' p))
      (QOption_move a b h) (QOption_move a b h') \<and>
    rel_option (\<lambda>s s'. \<forall>p. contents (s p) = contents (s' p))
      (QOption_copy a b h) (QOption_copy a b h') \<and>
    rel_option (\<lambda>s s'. \<forall>p. contents (s p) = contents (s' p))
      (operator_assign_move a b h) (operator_assign_move a b h')"
proof -
  have ab: "available (h p) = available (h' p)"
    and v: "available (h p) \<Longrightarrow> value (h p) = value (h' p)" for p
    using assms by (simp_all add: contents_eq_iff)
  have c: "contents (h p) = contents (h' p)" for p
    using assms by simp
  show ?thesis
    using ab [of a] ab [of b] v [of a] v [of b] c
    by (auto simp add: QOption_move_def QOption_copy_def operator_assign_move_def
        container_defs Let_def)
qed

text \<open>
  The constructors from nothing and from \<^verbatim>\<open>const Type &\<close> do not read the storage either;
  the constructor from \<^verbatim>\<open>Type &&\<close> hands what the storage held to its argument.
\<close>

lemma constructors_from_values:
  "contents (QOption_default raw) = None \<and>
   contents (QOption_const_ref raw t) = Some t \<and>
   contents (fst (QOption_rvalue raw t)) = Some t \<and>
   snd (QOption_rvalue raw t) = value raw"
  by (simp add: container_defs)

text \<open>
  C8 does not hold of \<^verbatim>\<open>QOption(Type && t)\<close>, which \<^verbatim>\<open>Some(Type &&)\<close> calls.  Its body
  \<^verbatim>\<open>std::swap(*__ptr_v(), t)\<close> reads the storage while \<^verbatim>\<open>available\<close> is false and nothing
  has been stored yet: the caller's object ends up with what the storage held.  Two pieces
  of memory with a cleared discriminant, the same as far as \<open>contents\<close> goes, give
  \<^verbatim>\<open>Some(3)\<close> different outcomes.
\<close>

theorem rvalue_constructor_reads_storage:
  "contents \<lparr>available = False, value = 7 :: int\<rparr> = contents \<lparr>available = False, value = 8\<rparr> \<and>
   snd (Some_rv \<lparr>available = False, value = 7\<rparr> (3::int)) = 7 \<and>
   snd (Some_rv \<lparr>available = False, value = 8\<rparr> (3::int)) = 8"
  by (simp add: contents_def container_defs)

text \<open>
  C9.  Copy assignment of a container to itself changes nothing: not the container,
  occupied or empty, and no other container of the store.
\<close>

theorem self_copy_assignment:
  "operator_assign_copy p p h = h"
  by (simp add: operator_assign_copy_def isSome_def Let_def fun_eq_iff)

text \<open>
  Move assignment and copy assignment from an empty source complete and change nothing
  but the discriminant of the destination, which they clear, whatever the destination
  held and also when it is the source itself.  Destination and source are empty
  afterwards, and \<^verbatim>\<open>unwrap\<close> and \<^verbatim>\<open>expect\<close> on the destination throw.
\<close>

lemma assign_from_empty:
  assumes "isNone (h other)"
  shows
   "operator_assign_move this other h = Some (h(this := (h this)\<lparr>available := False\<rparr>)) \<and>
    operator_assign_copy this other h = h(this := (h this)\<lparr>available := False\<rparr>) \<and>
    isNone ((h(this := (h this)\<lparr>available := False\<rparr>)) this) \<and>
    isNone ((h(this := (h this)\<lparr>available := False\<rparr>)) other) \<and>
    unwrap E ((h(this := (h this)\<lparr>available := False\<rparr>)) this) =
      Inl (Exception E ''Option is None value'') \<and>
    expect E text ((h(this := (h this)\<lparr>available := False\<rparr>)) this) =
      Inl (Exception E text)"
  using assms
  by (simp add: operator_assign_move_def operator_assign_copy_def container_defs)

text \<open>
  C10 does not hold: the value that the assignment from an empty source leaves in the
  storage of the destination is handed out later.  In
  \<^verbatim>\<open>d = Some(7); e = None(); s = Some(5); d = e; d = s; d.unwrap()\<close> the first assignment,
  copy or move, empties \<open>d\<close>; the copy assignment \<^verbatim>\<open>d = s\<close> sets the discriminant of \<open>d\<close>
  and stores nothing, and \<^verbatim>\<open>d.unwrap()\<close> returns 7.
\<close>

theorem assigned_over_value_is_yielded:
  "contents (store1 1) = Some 7 \<and> isNone (store1 2) \<and> contents (store1 3) = Some 5 \<and>
   contents (operator_assign_copy 1 2 store1 1) = None \<and>
   map_sum id fst (unwrap logic_error (operator_assign_copy 1 3 (operator_assign_copy 1 2 store1) 1)) =
     Inr 7 \<and>
   map_option (\<lambda>h. map_sum id fst (unwrap logic_error (operator_assign_copy 1 3 h 1)))
     (operator_assign_move 1 2 store1) = Some (Inr 7)"
  by (simp add: store1_def raw0_def operator_assign_copy_def operator_assign_move_def
      contents_def container_defs)

end
